theory Spec2Isabelle
  imports Main "HOL-Library.Word"
begin

section \<open>The asynchronous session pump of XProject (network_common/session.h)\<close>

text \<open>
  \<^verbatim>\<open>XP::Session<TSession>\<close> owns one TCP socket, a receive and a send
  \<^verbatim>\<open>PacketBuffer\<close> and a \<^verbatim>\<open>SlimRWLock\<close>.  The embedding below follows
  session.h function by function.  Everything a member function does besides updating
  the object (log lines, calls on the socket, asynchronous operations handed to the
  reactor) is appended to a trace, so that it can be observed in theorems.
\<close>

subsection \<open>Machine integers\<close>

type_synonym byte = "8 word"
type_synonym uint16 = "16 word"

text \<open>\<^verbatim>\<open>std::size_t\<close> of the completion handlers (a 64-bit build).\<close>

type_synonym size_t = "64 word"

subsection \<open>Boost.Asio: error codes, socket calls, exceptions\<close>

datatype shutdown_type = shutdown_receive | shutdown_send | shutdown_both

text \<open>
  A \<^verbatim>\<open>boost::system::error_code\<close>.  The handlers only test it for being set
  and compare it with three constants of \<^verbatim>\<open>boost::asio::error\<close>; every other
  code is \<open>os_error v\<close>, with \<open>v\<close> its numeric value.
\<close>

datatype error_code = success | eof | connection_reset | connection_aborted | os_error int

record endpoint =
  address :: string
  port :: nat

text \<open>
  A C++ exception object, by its dynamic type.  The throwing overloads of Boost.Asio
  (\<^verbatim>\<open>local_endpoint()\<close>, \<^verbatim>\<open>remote_endpoint()\<close>, \<^verbatim>\<open>shutdown(what)\<close>,
  \<^verbatim>\<open>close()\<close>) raise a \<^verbatim>\<open>boost::system::system_error\<close> that carries the
  error code; a bare \<^verbatim>\<open>boost::system::error_code\<close> is a different type, and
  \<^verbatim>\<open>system_error\<close> does not derive from it.
\<close>

datatype exception = system_error error_code | thrown_error_code error_code

text \<open>\<^verbatim>\<open>boost::asio::detail::throw_error(ec)\<close>: throws iff the code is set.\<close>

definition throw_error :: "error_code \<Rightarrow> exception option" where
  "throw_error ec = (if ec \<noteq> success then Some (system_error ec) else None)"

text \<open>The handler \<^verbatim>\<open>catch (const boost::system::error_code& errorCode)\<close>: it
  matches an exception object of that type only.\<close>

fun catch_error_code :: "exception \<Rightarrow> error_code option" where
  "catch_error_code (thrown_error_code ec) = Some ec"
| "catch_error_code (system_error ec) = None"

text \<open>
  What the operating system answers to the four fallible socket calls of session.h
  while one member function runs.  \<open>success\<close> means that the call succeeds.
\<close>

record os_reply =
  local_endpoint_reply :: "error_code + endpoint"
  remote_endpoint_reply :: "error_code + endpoint"
  shutdown_reply :: error_code
  close_reply :: error_code

subsection \<open>Observable effects\<close>

datatype severity = INFO | ERROR

datatype log_filter = LOG_FILTER_SERVER | LOG_FILTER_CONNECTION | LOG_FILTER_PACKET_BUFFER

text \<open>An argument of a log line: a string, a number, or the value or the message of
  an error code.\<close>

datatype log_arg =
  arg_string string
| arg_number nat
| arg_error_value error_code
| arg_error_message error_code

datatype event =
  Log severity log_filter string "log_arg list"
| socket_shutdown shutdown_type
| socket_close
| async_read_some nat
| async_write "byte list"

fun is_io :: "event \<Rightarrow> bool" where
  "is_io (async_read_some n) = True"
| "is_io (async_write bs) = True"
| "is_io e = False"

text \<open>The asynchronous operations of a trace, in the order they were posted.\<close>

definition io_posts :: "event list \<Rightarrow> event list" where
  "io_posts es = filter is_io es"

subsection \<open>PacketBuffer\<close>

text \<open>
  Modelled from the spec: \<^verbatim>\<open>PacketBuffer\<close> (packet_buffer.h is not part of the
  sources at hand).  Section 3 of the specification gives the data: a contiguous byte
  region and two cursors, \<open>[readCursor, writeCursor)\<close> being the pending bytes.
  The capacity is the length of the storage.
\<close>

record PacketBuffer =
  storage :: "byte list"
  readCursor :: nat
  writeCursor :: nat

text \<open>
  Modelled from the spec: the constants of the wire format and of the buffer that the
  specification leaves open: the size of the fixed header, how the header declares the
  payload length and the opcode, and the receive-chunk floor below which the buffer
  counts as low on space.
\<close>

record packet_format =
  header_size :: nat
  payload_length :: "byte list \<Rightarrow> nat"
  packet_no :: "byte list \<Rightarrow> nat"
  receive_floor :: nat

definition capacity :: "PacketBuffer \<Rightarrow> nat" where
  "capacity b = length (storage b)"

text \<open>Modelled from the spec: the pending bytes \<open>[readCursor, writeCursor)\<close>, which
  \<^verbatim>\<open>GetBuffer()\<close> and \<^verbatim>\<open>GetBufferSize()\<close> hand to the write.\<close>

definition GetBuffer :: "PacketBuffer \<Rightarrow> byte list" where
  "GetBuffer b = take (writeCursor b - readCursor b) (drop (readCursor b) (storage b))"

text \<open>Modelled from the spec: \<open>remaining-capacity()\<close>, \<open>capacity - writeCursor\<close>.\<close>

definition GetRemainSize :: "PacketBuffer \<Rightarrow> nat" where
  "GetRemainSize b = capacity b - writeCursor b"

text \<open>Modelled from the spec: \<open>is-low-on-space()\<close>, true when the remaining capacity
  falls below the receive-chunk floor.\<close>

definition IsNotEnoughBuffer :: "packet_format \<Rightarrow> PacketBuffer \<Rightarrow> bool" where
  "IsNotEnoughBuffer fmt b = (GetRemainSize b < receive_floor fmt)"

text \<open>Modelled from the spec: \<open>compact()\<close> shifts the pending bytes to offset 0 and
  resets both cursors accordingly.\<close>

definition ReArrange :: "PacketBuffer \<Rightarrow> PacketBuffer" where
  "ReArrange b =
     (let p = GetBuffer b
      in b\<lparr>storage := p @ drop (length p) (storage b),
           readCursor := 0,
           writeCursor := length p\<rparr>)"

text \<open>Modelled from the spec: \<open>record-bytes-written(n)\<close> advances the write cursor by
  \<open>n\<close> and fails (BufferOverrun) if that would exceed the capacity.  The argument is
  the \<^verbatim>\<open>uint16\<close> that session.h passes.\<close>

definition AppendWriteSize :: "uint16 \<Rightarrow> PacketBuffer \<Rightarrow> bool \<times> PacketBuffer" where
  "AppendWriteSize n b =
     (if capacity b < writeCursor b + unat n then (False, b)
      else (True, b\<lparr>writeCursor := writeCursor b + unat n\<rparr>))"

text \<open>Modelled from the spec: \<open>record-bytes-sent(n)\<close> advances the read cursor by
  \<open>n\<close>.\<close>

definition TruncateBuffer :: "uint16 \<Rightarrow> PacketBuffer \<Rightarrow> PacketBuffer" where
  "TruncateBuffer n b = b\<lparr>readCursor := readCursor b + unat n\<rparr>"

text \<open>Modelled from the spec: \<open>has-pending-data()\<close> is \<open>readCursor == writeCursor\<close>,
  nothing left to send.\<close>

definition IsEmptyData :: "PacketBuffer \<Rightarrow> bool" where
  "IsEmptyData b = (readCursor b = writeCursor b)"

text \<open>Modelled from the spec: \<open>set-packet(serializedPacket)\<close> appends the serialized
  packet at the write cursor; it fails (EncodeOverflow) if that would exceed the
  capacity, and then leaves the buffer unchanged.\<close>

definition SetPacket :: "byte list \<Rightarrow> PacketBuffer \<Rightarrow> bool \<times> PacketBuffer" where
  "SetPacket packet b =
     (if capacity b < writeCursor b + length packet then (False, b)
      else (True, b\<lparr>storage := take (writeCursor b) (storage b) @ packet
                                  @ drop (writeCursor b + length packet) (storage b),
                      writeCursor := writeCursor b + length packet\<rparr>))"

text \<open>Modelled from the spec: \<open>has-ready-packet()\<close>, true iff the header is fully
  present and the payload length it declares is fully present in the pending bytes.\<close>

definition IsAbleToGetPacket :: "packet_format \<Rightarrow> PacketBuffer \<Rightarrow> bool" where
  "IsAbleToGetPacket fmt b =
     (let p = GetBuffer b
      in header_size fmt \<le> length p
         \<and> header_size fmt + payload_length fmt (take (header_size fmt) p) \<le> length p)"

text \<open>Modelled from the spec: \<open>peek-packet-id()\<close>, the opcode field of the packet at
  the read cursor.\<close>

definition GetPacketNo :: "packet_format \<Rightarrow> PacketBuffer \<Rightarrow> nat" where
  "GetPacketNo fmt b = packet_no fmt (take (header_size fmt) (GetBuffer b))"

subsection \<open>Session\<close>

text \<open>
  The members of \<^verbatim>\<open>Session\<close>: of \<^verbatim>\<open>_socket\<close> the functions read
  \<^verbatim>\<open>is_open()\<close> only; \<open>lock_held\<close> is \<^verbatim>\<open>_lock\<close>.  \<open>trace\<close> is not a
  member: it collects the effects, oldest first.
\<close>

record session =
  socket_is_open :: bool
  recvBuffer :: PacketBuffer
  sendBuffer :: PacketBuffer
  lock_held :: bool
  trace :: "event list"

text \<open>
  How a member function ends: it returns, an exception leaves it, the process is
  ended by \<^verbatim>\<open>std::terminate\<close> (an exception reaching the boundary of a
  \<^verbatim>\<open>noexcept\<close> function), or it blocks for ever on a lock its own thread holds.
\<close>

datatype 'a outcome = Returns 'a | Throws exception | Terminates | Deadlocks

definition emit :: "event \<Rightarrow> session \<Rightarrow> session" where
  "emit e s = s\<lparr>trace := trace s @ [e]\<rparr>"

text \<open>Modelled from the spec: the logging macros (an external log sink); a log call
  is recorded with its severity, filter, format string and arguments.\<close>

definition LOG_INFO :: "log_filter \<Rightarrow> string \<Rightarrow> log_arg list \<Rightarrow> session \<Rightarrow> session" where
  "LOG_INFO f fmt args s = emit (Log INFO f fmt args) s"

definition LOG_ERROR :: "log_filter \<Rightarrow> string \<Rightarrow> log_arg list \<Rightarrow> session \<Rightarrow> session" where
  "LOG_ERROR f fmt args s = emit (Log ERROR f fmt args) s"

fun GetShutdownTypeString :: "shutdown_type \<Rightarrow> string" where
  "GetShutdownTypeString shutdown_send = ''shutdown_send''"
| "GetShutdownTypeString shutdown_receive = ''shutdown_receive''"
| "GetShutdownTypeString shutdown_both = ''shutdown_both''"

text \<open>
  The body of the \<^verbatim>\<open>try\<close> block of \<^verbatim>\<open>Shutdown\<close>:
  \<^verbatim>\<open>_socket.shutdown(shutdownType); _socket.close();\<close>.  A failing
  \<^verbatim>\<open>shutdown\<close> leaves the block before \<^verbatim>\<open>close\<close> is reached; \<^verbatim>\<open>close\<close>
  releases the descriptor even when it reports an error.
\<close>

definition shutdown_and_close ::
  "os_reply \<Rightarrow> shutdown_type \<Rightarrow> session \<Rightarrow> session \<times> exception option" where
  "shutdown_and_close os shutdownType s =
     (let s1 = emit (socket_shutdown shutdownType) s
      in case throw_error (shutdown_reply os) of
           Some e \<Rightarrow> (s1, Some e)
         | None \<Rightarrow>
             (let s2 = (emit socket_close s1)\<lparr>socket_is_open := False\<rparr>
              in (s2, throw_error (close_reply os))))"

text \<open>
  \<^verbatim>\<open>Session::Shutdown\<close>, declared \<^verbatim>\<open>noexcept\<close>.  \<^verbatim>\<open>local_endpoint()\<close>
  is called outside the \<^verbatim>\<open>try\<close> block; an exception the handler does not match
  reaches the \<^verbatim>\<open>noexcept\<close> boundary.
\<close>

definition Shutdown :: "os_reply \<Rightarrow> shutdown_type \<Rightarrow> session \<Rightarrow> session outcome" where
  "Shutdown os shutdownType s =
     (if \<not> socket_is_open s then Returns s
      else case local_endpoint_reply os of
             Inl ec \<Rightarrow> Terminates
           | Inr local_endpoint \<Rightarrow>
               (let s1 = LOG_INFO LOG_FILTER_SERVER
                           ''Session is disconnected({}). ip: {}, port: {}''
                           [arg_string (GetShutdownTypeString shutdownType),
                            arg_string (address local_endpoint),
                            arg_number (port local_endpoint)] s
                in case shutdown_and_close os shutdownType s1 of
                     (s2, None) \<Rightarrow> Returns s2
                   | (s2, Some e) \<Rightarrow>
                       (case catch_error_code e of
                          Some errorCode \<Rightarrow>
                            Returns (LOG_ERROR LOG_FILTER_SERVER
                              ''Session fail to close socket. error_code: {}, error_message: {}''
                              [arg_error_value errorCode, arg_error_message errorCode] s2)
                        | None \<Rightarrow> Terminates)))"

text \<open>
  Modelled from the spec: \<^verbatim>\<open>LOCK_W(_lock)\<close> on the \<^verbatim>\<open>SlimRWLock\<close>, a scoped
  exclusive acquisition that is released when the enclosing block is left.  The lock is
  not re-entrant: a function entered while its own thread holds the lock never returns.
\<close>

definition unlock :: "session \<Rightarrow> session" where
  "unlock s = s\<lparr>lock_held := False\<rparr>"

fun and_then :: "'a outcome \<Rightarrow> ('a \<Rightarrow> 'b outcome) \<Rightarrow> 'b outcome" where
  "and_then (Returns x) f = f x"
| "and_then (Throws e) f = Throws e"
| "and_then Terminates f = Terminates"
| "and_then Deadlocks f = Deadlocks"

text \<open>
  \<^verbatim>\<open>Session::PostReceive\<close> up to the point where it has handed the read to the
  reactor.  The completion handler is \<open>PostReceive_handler\<close> below; the reactor runs
  it later, with the error code and the number of bytes of the finished read.  The
  session is owned by a \<^verbatim>\<open>shared_ptr\<close>, as \<^verbatim>\<open>shared_from_this()\<close> requires;
  the reference that keeps it alive until the handler has run is not part of the state.
\<close>

definition PostReceive :: "packet_format \<Rightarrow> session \<Rightarrow> bool \<times> session" where
  "PostReceive fmt s =
     (if \<not> socket_is_open s then
        (False, LOG_ERROR LOG_FILTER_CONNECTION
                  ''Fail to PostReceive. Session is disconnected.'' [] s)
      else
        (let s1 = (if IsNotEnoughBuffer fmt (recvBuffer s)
                   then s\<lparr>recvBuffer := ReArrange (recvBuffer s)\<rparr> else s)
         in (True, emit (async_read_some (GetRemainSize (recvBuffer s1))) s1)))"

text \<open>
  Modelled from the spec: \<^verbatim>\<open>PacketHandlerManager::Handle(session, buffer)\<close>
  (packet_handler_manager.h is not part of the sources at hand).  It is a parameter:
  any function that is given the session (whose receive buffer it may consume from) and
  answers success or failure.
\<close>

type_synonym packet_handler = "session \<Rightarrow> bool \<times> session"

text \<open>
  The \<^verbatim>\<open>while (_recvBuffer.IsAbleToGetPacket())\<close> loop of the read completion
  handler and the \<^verbatim>\<open>PostReceive()\<close> that follows it.  Nothing in session.h bounds
  the loop, so it is a partial function: \<open>None\<close> is the loop that runs for ever.
\<close>

partial_function (option) PostReceive_drain ::
  "packet_format \<Rightarrow> packet_handler \<Rightarrow> os_reply \<Rightarrow> session \<Rightarrow> session outcome option" where
  "PostReceive_drain fmt Handle os s =
     (if IsAbleToGetPacket fmt (recvBuffer s) then
        (case Handle s of
           (ok, s1) \<Rightarrow>
             if \<not> ok then
               Some (Shutdown os shutdown_receive
                       (LOG_ERROR LOG_FILTER_CONNECTION
                          ''Receive Handler failed. packetNumber: {}''
                          [arg_number (GetPacketNo fmt (recvBuffer s1))] s1))
             else PostReceive_drain fmt Handle os s1)
      else Some (Returns (snd (PostReceive fmt s))))"

text \<open>
  The completion handler of the read (the lambda given to \<^verbatim>\<open>async_read_some\<close>).
  The bytes that were read are in the storage of the receive buffer already when it
  runs.
\<close>

definition PostReceive_handler ::
  "packet_format \<Rightarrow> packet_handler \<Rightarrow> os_reply \<Rightarrow> error_code \<Rightarrow> size_t \<Rightarrow> session
     \<Rightarrow> session outcome option" where
  "PostReceive_handler fmt Handle os errorCode bytes_transferred s =
     (if \<not> socket_is_open s then
        Some (Returns (LOG_ERROR LOG_FILTER_CONNECTION
                         ''Fail to PostReceive. Session is disconnected.'' [] s))
      else case remote_endpoint_reply os of
        Inl ec \<Rightarrow> Some (Throws (system_error ec))
      | Inr remoteEndPoint \<Rightarrow>
          if errorCode \<noteq> success \<or> bytes_transferred = 0 then
            (let shutdownType = shutdown_receive
             in if errorCode = eof \<or> errorCode = connection_reset then
                  Some (Shutdown os shutdown_both
                          (LOG_INFO LOG_FILTER_CONNECTION
                             ''Disconnected. address: {}, port: {}''
                             [arg_string (address remoteEndPoint),
                              arg_number (port remoteEndPoint)] s))
                else if errorCode = connection_aborted then
                  Some (Shutdown os shutdownType
                          (LOG_INFO LOG_FILTER_CONNECTION
                             ''Connection aborted. address: {}, port: {}''
                             [arg_string (address remoteEndPoint),
                              arg_number (port remoteEndPoint)] s))
                else if bytes_transferred = 0 then
                  Some (Shutdown os shutdownType
                          (LOG_INFO LOG_FILTER_CONNECTION
                             ''Disconnected. 0 bytes transferred. address: {}, port: {}''
                             [arg_string (address remoteEndPoint),
                              arg_number (port remoteEndPoint)] s))
                else
                  Some (Shutdown os shutdownType
                          (LOG_ERROR LOG_FILTER_CONNECTION
                             ''Connection receive error. error_code: {}, error_message: {}, address: {}, port: {}''
                             [arg_error_value errorCode, arg_error_message errorCode,
                              arg_string (address remoteEndPoint),
                              arg_number (port remoteEndPoint)] s)))
          else
            (case AppendWriteSize (ucast bytes_transferred) (recvBuffer s) of
               (False, b) \<Rightarrow>
                 Some (Shutdown os shutdown_receive
                         (LOG_ERROR LOG_FILTER_CONNECTION
                            ''Receive buffer error. recvBuffer remain size: {}, bytes_transferred: {}''
                            [arg_number (GetRemainSize b),
                             arg_number (unat bytes_transferred)]
                            (s\<lparr>recvBuffer := b\<rparr>)))
             | (True, b) \<Rightarrow> PostReceive_drain fmt Handle os (s\<lparr>recvBuffer := b\<rparr>)))"

text \<open>\<^verbatim>\<open>Session::PostWrite\<close> up to the point where it has handed the write to the
  reactor; the lock is released when the function is left.\<close>

definition PostWrite :: "session \<Rightarrow> session outcome" where
  "PostWrite s =
     (if lock_held s then Deadlocks
      else
        (let s1 = s\<lparr>lock_held := True\<rparr>
         in if \<not> socket_is_open s1 then
              Returns (unlock (LOG_ERROR LOG_FILTER_CONNECTION
                                 ''Fail to PostWrite. socket is closed.'' [] s1))
            else if IsEmptyData (sendBuffer s1) then Returns (unlock s1)
            else Returns (unlock (emit (async_write (GetBuffer (sendBuffer s1))) s1))))"

text \<open>
  The completion handler of the write (the lambda given to \<^verbatim>\<open>async_write\<close>).  The
  inner block holds the lock; every \<^verbatim>\<open>return\<close> inside it releases the lock, and
  the final \<^verbatim>\<open>PostWrite()\<close> stands after the block.
\<close>

definition PostWrite_handler ::
  "os_reply \<Rightarrow> error_code \<Rightarrow> size_t \<Rightarrow> session \<Rightarrow> session outcome" where
  "PostWrite_handler os errorCode bytes_transferred s =
     (if lock_held s then Deadlocks
      else
        (let s1 = s\<lparr>lock_held := True\<rparr>
         in if \<not> socket_is_open s1 then
              Returns (unlock (LOG_ERROR LOG_FILTER_CONNECTION
                                 ''Fail to PostWrite. Session is disconnected.'' [] s1))
            else case remote_endpoint_reply os of
              Inl ec \<Rightarrow> Throws (system_error ec)
            | Inr remoteEndPoint \<Rightarrow>
                if errorCode \<noteq> success \<or> bytes_transferred = 0 then
                  (let shutdownType = shutdown_send
                   in if errorCode = eof \<or> errorCode = connection_reset then
                        and_then
                          (Shutdown os shutdown_both
                             (LOG_INFO LOG_FILTER_CONNECTION
                                ''Disconnected. address: {}, port: {}''
                                [arg_string (address remoteEndPoint),
                                 arg_number (port remoteEndPoint)] s1))
                          (\<lambda>s2. Returns (unlock s2))
                      else if errorCode = connection_aborted then
                        and_then
                          (Shutdown os shutdownType
                             (LOG_INFO LOG_FILTER_CONNECTION
                                ''Connection aborted. address: {}, port: {}''
                                [arg_string (address remoteEndPoint),
                                 arg_number (port remoteEndPoint)] s1))
                          (\<lambda>s2. Returns (unlock s2))
                      else if bytes_transferred = 0 then
                        and_then
                          (Shutdown os shutdownType
                             (LOG_INFO LOG_FILTER_CONNECTION
                                ''Disconnected. 0 bytes transferred. address: {}, port: {}''
                                [arg_string (address remoteEndPoint),
                                 arg_number (port remoteEndPoint)] s1))
                          (\<lambda>s2. Returns (unlock s2))
                      else
                        and_then
                          (Shutdown os shutdownType
                             (LOG_ERROR LOG_FILTER_CONNECTION
                                ''Connection send error. error_code: {}, error_message: {}, address: {}, port: {}''
                                [arg_error_value errorCode, arg_error_message errorCode,
                                 arg_string (address remoteEndPoint),
                                 arg_number (port remoteEndPoint)] s1))
                          (\<lambda>s2. Returns (unlock s2)))
                else
                  (let s2 = s1\<lparr>sendBuffer :=
                                 TruncateBuffer (ucast bytes_transferred) (sendBuffer s1)\<rparr>
                   in if IsEmptyData (sendBuffer s2) then
                        Returns (unlock (s2\<lparr>sendBuffer := ReArrange (sendBuffer s2)\<rparr>))
                      else PostWrite (unlock s2))))"

text \<open>\<^verbatim>\<open>Session::SendPacket\<close>; the packet is given by its serialized bytes.\<close>

definition SendPacket :: "byte list \<Rightarrow> session \<Rightarrow> (bool \<times> session) outcome" where
  "SendPacket packet s =
     (if lock_held s then Deadlocks
      else
        (let s1 = s\<lparr>lock_held := True\<rparr>
         in case SetPacket packet (sendBuffer s1) of
              (False, b) \<Rightarrow>
                Returns (False, unlock (LOG_ERROR LOG_FILTER_PACKET_BUFFER
                                          ''Fail to SetPacket().'' []
                                          (s1\<lparr>sendBuffer := b\<rparr>)))
            | (True, b) \<Rightarrow>
                and_then (PostWrite (unlock (s1\<lparr>sendBuffer := b\<rparr>)))
                         (\<lambda>s2. Returns (True, s2))))"

subsection \<open>Vocabulary of the properties\<close>

text \<open>What a \<^verbatim>\<open>Shutdown\<close> that closes the socket adds to the trace: the log line
  with the mode and the local endpoint, then the two socket calls.\<close>

definition disconnected_trace :: "endpoint \<Rightarrow> shutdown_type \<Rightarrow> event list" where
  "disconnected_trace ep m =
     [Log INFO LOG_FILTER_SERVER ''Session is disconnected({}). ip: {}, port: {}''
        [arg_string (GetShutdownTypeString m), arg_string (address ep), arg_number (port ep)],
      socket_shutdown m, socket_close]"

text \<open>The log lines of the two completion handlers, as events.\<close>

abbreviation Disconnected_log :: "endpoint \<Rightarrow> event" where
  "Disconnected_log ep \<equiv>
     Log INFO LOG_FILTER_CONNECTION ''Disconnected. address: {}, port: {}''
       [arg_string (address ep), arg_number (port ep)]"

abbreviation Connection_aborted_log :: "endpoint \<Rightarrow> event" where
  "Connection_aborted_log ep \<equiv>
     Log INFO LOG_FILTER_CONNECTION ''Connection aborted. address: {}, port: {}''
       [arg_string (address ep), arg_number (port ep)]"

abbreviation Zero_bytes_log :: "endpoint \<Rightarrow> event" where
  "Zero_bytes_log ep \<equiv>
     Log INFO LOG_FILTER_CONNECTION
       ''Disconnected. 0 bytes transferred. address: {}, port: {}''
       [arg_string (address ep), arg_number (port ep)]"

abbreviation Receive_error_log :: "error_code \<Rightarrow> endpoint \<Rightarrow> event" where
  "Receive_error_log ec ep \<equiv>
     Log ERROR LOG_FILTER_CONNECTION
       ''Connection receive error. error_code: {}, error_message: {}, address: {}, port: {}''
       [arg_error_value ec, arg_error_message ec, arg_string (address ep),
        arg_number (port ep)]"

abbreviation Send_error_log :: "error_code \<Rightarrow> endpoint \<Rightarrow> event" where
  "Send_error_log ec ep \<equiv>
     Log ERROR LOG_FILTER_CONNECTION
       ''Connection send error. error_code: {}, error_message: {}, address: {}, port: {}''
       [arg_error_value ec, arg_error_message ec, arg_string (address ep),
        arg_number (port ep)]"


abbreviation PostWrite_closed_log :: event where
  "PostWrite_closed_log \<equiv>
     Log ERROR LOG_FILTER_CONNECTION ''Fail to PostWrite. socket is closed.'' []"

abbreviation SetPacket_failed_log :: event where
  "SetPacket_failed_log \<equiv> Log ERROR LOG_FILTER_PACKET_BUFFER ''Fail to SetPacket().'' []"


subsection \<open>Concrete sessions\<close>

definition local0 :: endpoint where
  "local0 = \<lparr>address = ''10.0.0.1'', port = 7000\<rparr>"

definition remote0 :: endpoint where
  "remote0 = \<lparr>address = ''10.0.0.2'', port = 50000\<rparr>"

text \<open>An operating system all of whose calls succeed.\<close>

definition os_ok :: os_reply where
  "os_ok = \<lparr>local_endpoint_reply = Inr local0, remote_endpoint_reply = Inr remote0,
            shutdown_reply = success, close_reply = success\<rparr>"

definition buffer0 :: PacketBuffer where
  "buffer0 = \<lparr>storage = [0, 0, 0, 0, 0, 0, 0, 0], readCursor = 0, writeCursor = 0\<rparr>"

text \<open>A connected session with empty buffers that has not done anything yet.\<close>

definition session0 :: session where
  "session0 = \<lparr>socket_is_open = True, recvBuffer = buffer0, sendBuffer = buffer0,
               lock_held = False, trace = []\<rparr>"

text \<open>Modelled from the spec: a wire format for the concrete sessions: a header of
  two bytes, the payload length first and the opcode second.\<close>

definition fmt0 :: packet_format where
  "fmt0 = \<lparr>header_size = 2,
           payload_length = (\<lambda>h. case h of [] \<Rightarrow> 0 | len # _ \<Rightarrow> unat len),
           packet_no = (\<lambda>h. case h of _ # no # _ \<Rightarrow> unat no | _ \<Rightarrow> 0),
           receive_floor = 2\<rparr>"

text \<open>Modelled from the spec: \<open>consume-packet()\<close> advances the read cursor past the
  header and the payload of one packet.\<close>

definition ConsumePacket :: "packet_format \<Rightarrow> PacketBuffer \<Rightarrow> PacketBuffer" where
  "ConsumePacket fmt b =
     b\<lparr>readCursor := readCursor b + header_size fmt
                      + payload_length fmt (take (header_size fmt) (GetBuffer b))\<rparr>"

text \<open>Modelled from the spec: a dispatcher that knows opcode 7 only: it consumes such
  a packet and answers success, and answers failure on any other opcode without
  consuming it.\<close>

definition dispatcher7 :: "packet_format \<Rightarrow> packet_handler" where
  "dispatcher7 fmt s =
     (if GetPacketNo fmt (recvBuffer s) = 7
      then (True, s\<lparr>recvBuffer := ConsumePacket fmt (recvBuffer s)\<rparr>)
      else (False, s))"


text \<open>A buffer with five pending bytes.\<close>

definition five_pending :: PacketBuffer where
  "five_pending = \<lparr>storage = [1, 2, 3, 4, 5, 0, 0, 0], readCursor = 0, writeCursor = 5\<rparr>"

text \<open>A buffer of 70000 bytes with 65540 pending bytes.\<close>

definition big_buffer :: PacketBuffer where
  "big_buffer = \<lparr>storage = replicate 70000 0, readCursor = 0, writeCursor = 65540\<rparr>"

section \<open>Properties\<close>

subsection \<open>Shutdown\<close>

lemma Shutdown_closed: "\<not> socket_is_open s \<Longrightarrow> Shutdown os m s = Returns s"
  by (simp add: Shutdown_def)

lemma Shutdown_open:
  "socket_is_open s \<Longrightarrow>
   Shutdown os m s =
     (case local_endpoint_reply os of
        Inl ec \<Rightarrow> Terminates
      | Inr ep \<Rightarrow>
          if shutdown_reply os = success \<and> close_reply os = success
          then Returns (s\<lparr>socket_is_open := False, trace := trace s @ disconnected_trace ep m\<rparr>)
          else Terminates)"
  by (simp add: Shutdown_def shutdown_and_close_def throw_error_def LOG_INFO_def emit_def
      disconnected_trace_def Let_def split: sum.splits)

lemma Shutdown_Returns_closed: "Shutdown os m s = Returns s' \<Longrightarrow> \<not> socket_is_open s'"
  by (cases "socket_is_open s")
     (auto simp: Shutdown_open Shutdown_closed split: sum.splits if_splits)

lemma Shutdown_Returns_io:
  "Shutdown os m s = Returns s' \<Longrightarrow> io_posts (trace s') = io_posts (trace s)"
  by (cases "socket_is_open s")
     (auto simp: Shutdown_open Shutdown_closed io_posts_def disconnected_trace_def
        split: sum.splits if_splits)

lemma and_then_Shutdown_twice:
  "and_then (Shutdown os m s) (Shutdown os' m') = Shutdown os m s"
proof (cases "Shutdown os m s")
  case (Returns s1)
  then have "\<not> socket_is_open s1" by (rule Shutdown_Returns_closed)
  then show ?thesis using Returns by (simp add: Shutdown_closed)
qed simp_all

text \<open>Whatever call on the socket fails, the \<^verbatim>\<open>catch\<close> block of
  \<^verbatim>\<open>Shutdown\<close> is never entered.\<close>

lemma Shutdown_failure_not_caught:
  assumes "socket_is_open s"
    and "local_endpoint_reply os = Inl ec \<or> shutdown_reply os \<noteq> success
         \<or> close_reply os \<noteq> success"
  shows "Shutdown os m s = Terminates"
  using assms by (auto simp: Shutdown_open split: sum.splits)

text \<open>
  C5.  Shutdown on a closed socket returns the session as it is: no log line, no socket
  call, no change.  Two calls in a row, with any modes, end as the first call alone
  does; when the socket was open and the first call returns, the socket is closed, the
  trace has gained exactly one \<open>socket_close\<close>, and the second call changes nothing.
\<close>

theorem Shutdown_idempotent:
  "(\<not> socket_is_open s \<longrightarrow> Shutdown os m s = Returns s)
   \<and> and_then (Shutdown os m s) (Shutdown os' m') = Shutdown os m s
   \<and> (socket_is_open s \<longrightarrow> Shutdown os m s = Returns s1 \<longrightarrow>
        \<not> socket_is_open s1
        \<and> Shutdown os' m' s1 = Returns s1
        \<and> count_list (trace s1) socket_close = Suc (count_list (trace s) socket_close))"
proof (intro conjI impI)
  show "Shutdown os m s = Returns s" if "\<not> socket_is_open s"
    using that by (rule Shutdown_closed)
  show "and_then (Shutdown os m s) (Shutdown os' m') = Shutdown os m s"
    by (rule and_then_Shutdown_twice)
next
  assume o: "socket_is_open s" and r: "Shutdown os m s = Returns s1"
  from r show c: "\<not> socket_is_open s1" by (rule Shutdown_Returns_closed)
  from c show "Shutdown os' m' s1 = Returns s1" by (rule Shutdown_closed)
  from o r show "count_list (trace s1) socket_close = Suc (count_list (trace s) socket_close)"
    by (auto simp: Shutdown_open disconnected_trace_def split: sum.splits if_splits)
qed

theorem Shutdown_idempotent_witness:
  "socket_is_open session0
   \<and> Shutdown os_ok shutdown_send session0
       = Returns (session0\<lparr>socket_is_open := False,
                           trace := disconnected_trace local0 shutdown_send\<rparr>)
   \<and> and_then (Shutdown os_ok shutdown_send session0) (Shutdown os_ok shutdown_both)
       = Returns (session0\<lparr>socket_is_open := False,
                           trace := disconnected_trace local0 shutdown_send\<rparr>)
   \<and> count_list (disconnected_trace local0 shutdown_send) socket_close = 1"
proof -
  have o: "socket_is_open session0" by (simp add: session0_def)
  have r: "Shutdown os_ok shutdown_send session0
       = Returns (session0\<lparr>socket_is_open := False,
                           trace := disconnected_trace local0 shutdown_send\<rparr>)"
    by (simp add: Shutdown_open o os_ok_def) (simp add: session0_def)
  from Shutdown_idempotent [of session0 os_ok shutdown_send os_ok shutdown_both
      "session0\<lparr>socket_is_open := False, trace := disconnected_trace local0 shutdown_send\<rparr>"]
  show ?thesis using o r by (simp add: session0_def)
qed

text \<open>
  C3 asks that an error met while shutting down or closing the socket be logged and
  swallowed, the call completing normally.  The code does not do that.  On an open
  session whose socket reports an error to \<^verbatim>\<open>shutdown\<close> (10057, not connected), to
  \<^verbatim>\<open>close\<close> or to \<^verbatim>\<open>local_endpoint\<close>, the exception is a
  \<^verbatim>\<open>system_error\<close>, the handler for \<^verbatim>\<open>error_code\<close> does not match it, nothing
  is logged about it, and the call does not return: the process is terminated.
\<close>

theorem Shutdown_error_terminates:
  "Shutdown (os_ok\<lparr>shutdown_reply := os_error 10057\<rparr>) shutdown_both session0 = Terminates
   \<and> Shutdown (os_ok\<lparr>close_reply := os_error 10038\<rparr>) shutdown_both session0 = Terminates
   \<and> Shutdown (os_ok\<lparr>local_endpoint_reply := Inl (os_error 10022)\<rparr>) shutdown_both session0
       = Terminates"
  by (simp add: Shutdown_def shutdown_and_close_def throw_error_def os_ok_def session0_def
      LOG_INFO_def emit_def)

subsection \<open>Auxiliary facts about the handlers\<close>

lemma unat_narrow: "unat (ucast (n::size_t) :: uint16) = unat n mod 65536"
  by (simp add: unsigned_ucast_eq take_bit_eq_mod)

lemma locked_Shutdown:
  "\<not> lock_held s \<Longrightarrow>
   and_then (Shutdown os m (emit e (s\<lparr>lock_held := True\<rparr>))) (\<lambda>s2. Returns (unlock s2))
     = Shutdown os m (emit e s)"
  by (cases s; cases "socket_is_open s")
     (auto simp: Shutdown_open Shutdown_closed emit_def unlock_def split: sum.splits)

lemma PostWrite_unlocked:
  "\<not> lock_held s \<Longrightarrow>
   PostWrite s =
     Returns (if \<not> socket_is_open s then emit PostWrite_closed_log s
              else if IsEmptyData (sendBuffer s) then s
              else emit (async_write (GetBuffer (sendBuffer s))) s)"
  by (cases s) (simp add: PostWrite_def LOG_ERROR_def emit_def unlock_def)

lemma PostWrite_handler_failed:
  assumes "socket_is_open s" and "\<not> lock_held s" and "remote_endpoint_reply os = Inr ep"
    and "errorCode \<noteq> success \<or> n = 0"
  shows "PostWrite_handler os errorCode n s =
           (if errorCode = eof \<or> errorCode = connection_reset
            then Shutdown os shutdown_both (emit (Disconnected_log ep) s)
            else if errorCode = connection_aborted
            then Shutdown os shutdown_send (emit (Connection_aborted_log ep) s)
            else if n = 0
            then Shutdown os shutdown_send (emit (Zero_bytes_log ep) s)
            else Shutdown os shutdown_send (emit (Send_error_log errorCode ep) s))"
  using assms
  by (simp add: PostWrite_handler_def LOG_INFO_def LOG_ERROR_def locked_Shutdown)

lemma PostReceive_handler_failed:
  assumes "socket_is_open s" and "remote_endpoint_reply os = Inr ep"
    and "errorCode \<noteq> success \<or> n = 0"
  shows "PostReceive_handler fmt Handle os errorCode n s =
           Some (if errorCode = eof \<or> errorCode = connection_reset
            then Shutdown os shutdown_both (emit (Disconnected_log ep) s)
            else if errorCode = connection_aborted
            then Shutdown os shutdown_receive (emit (Connection_aborted_log ep) s)
            else if n = 0
            then Shutdown os shutdown_receive (emit (Zero_bytes_log ep) s)
            else Shutdown os shutdown_receive (emit (Receive_error_log errorCode ep) s))"
  using assms
  by (simp add: PostReceive_handler_def LOG_INFO_def LOG_ERROR_def)

lemma PostWrite_handler_sent:
  assumes "socket_is_open s" and "\<not> lock_held s" and "remote_endpoint_reply os = Inr ep"
    and "n \<noteq> 0"
  shows "PostWrite_handler os success n s =
           (if IsEmptyData (TruncateBuffer (ucast n) (sendBuffer s))
            then Returns (s\<lparr>sendBuffer := ReArrange (TruncateBuffer (ucast n) (sendBuffer s))\<rparr>)
            else PostWrite (s\<lparr>sendBuffer := TruncateBuffer (ucast n) (sendBuffer s)\<rparr>))"
  using assms
  by (cases s) (simp add: PostWrite_handler_def unlock_def Let_def)

lemma PostReceive_handler_received:
  assumes "socket_is_open s" and "remote_endpoint_reply os = Inr ep" and "n \<noteq> 0"
  shows "PostReceive_handler fmt Handle os success n s =
           (case AppendWriteSize (ucast n) (recvBuffer s) of
              (ok, b) \<Rightarrow>
                if ok then PostReceive_drain fmt Handle os (s\<lparr>recvBuffer := b\<rparr>)
                else Some (Shutdown os shutdown_receive
                       (emit (Log ERROR LOG_FILTER_CONNECTION
                          ''Receive buffer error. recvBuffer remain size: {}, bytes_transferred: {}''
                          [arg_number (GetRemainSize b), arg_number (unat n)])
                          (s\<lparr>recvBuffer := b\<rparr>))))"
  using assms
  by (simp add: PostReceive_handler_def LOG_ERROR_def split: prod.splits bool.splits)

lemma SendPacket_closed:
  assumes "\<not> socket_is_open s" and "\<not> lock_held s"
  shows "SendPacket packet s =
     Returns (if capacity (sendBuffer s) < writeCursor (sendBuffer s) + length packet
              then (False, emit SetPacket_failed_log s)
              else (True, emit PostWrite_closed_log
                      (s\<lparr>sendBuffer := snd (SetPacket packet (sendBuffer s))\<rparr>)))"
  using assms
  by (cases s)
     (simp add: SendPacket_def SetPacket_def PostWrite_def LOG_ERROR_def emit_def unlock_def)



lemma PostReceive_drain_done:
  assumes "\<not> IsAbleToGetPacket fmt (recvBuffer s)"
  shows "PostReceive_drain fmt Handle os s = Some (Returns (snd (PostReceive fmt s)))"
  using assms by (subst PostReceive_drain.simps) simp

subsection \<open>SendPacket on a closed session\<close>

text \<open>
  C1 (as amended).  When the socket is open, the lock is free and the calls on the socket
  succeed, the write completion handler that is given \<open>connection_reset\<close> returns
  with the socket closed, after a full shutdown.  On a closed session every
  \<^verbatim>\<open>SendPacket\<close> leaves the session closed and posts no asynchronous operation.
  Its result is whether the packet fitted into the send buffer: if it fits, the packet
  is appended at the write cursor of the send buffer, \<^verbatim>\<open>PostWrite\<close> logs that the
  socket is closed, and the result is success; if it does not fit, the buffer is left as
  it was, the failure of \<^verbatim>\<open>SetPacket\<close> is logged, and the result is failure.
\<close>

theorem connection_reset_then_SendPacket:
  assumes "socket_is_open s" and "\<not> lock_held s"
    and "remote_endpoint_reply os = Inr rep" and "local_endpoint_reply os = Inr lep"
    and "shutdown_reply os = success" and "close_reply os = success"
  shows "(\<exists>s1. PostWrite_handler os connection_reset n s = Returns s1
            \<and> \<not> socket_is_open s1 \<and> \<not> lock_held s1
            \<and> trace s1 = trace s @ Disconnected_log rep # disconnected_trace lep shutdown_both)
       \<and> (\<not> socket_is_open c \<and> \<not> lock_held c \<longrightarrow>
            (writeCursor (sendBuffer c) + length packet \<le> capacity (sendBuffer c) \<longrightarrow>
               SendPacket packet c
                 = Returns (True, emit PostWrite_closed_log
                     (c\<lparr>sendBuffer := (sendBuffer c)
                          \<lparr>storage := take (writeCursor (sendBuffer c)) (storage (sendBuffer c))
                                        @ packet
                                        @ drop (writeCursor (sendBuffer c) + length packet)
                                            (storage (sendBuffer c)),
                           writeCursor := writeCursor (sendBuffer c) + length packet\<rparr>\<rparr>)))
          \<and> (capacity (sendBuffer c) < writeCursor (sendBuffer c) + length packet \<longrightarrow>
               SendPacket packet c = Returns (False, emit SetPacket_failed_log c))
          \<and> (\<forall>r c'. SendPacket packet c = Returns (r, c') \<longrightarrow>
                 \<not> socket_is_open c' \<and> \<not> lock_held c'
                 \<and> recvBuffer c' = recvBuffer c
                 \<and> io_posts (trace c') = io_posts (trace c)))"
proof (intro conjI impI allI)
  show "\<exists>s1. PostWrite_handler os connection_reset n s = Returns s1
            \<and> \<not> socket_is_open s1 \<and> \<not> lock_held s1
            \<and> trace s1 = trace s @ Disconnected_log rep # disconnected_trace lep shutdown_both"
    using assms by (simp add: PostWrite_handler_failed Shutdown_open emit_def)
next
  assume c: "\<not> socket_is_open c \<and> \<not> lock_held c"
    and fits: "writeCursor (sendBuffer c) + length packet \<le> capacity (sendBuffer c)"
  then show "SendPacket packet c
                 = Returns (True, emit PostWrite_closed_log
                     (c\<lparr>sendBuffer := (sendBuffer c)
                          \<lparr>storage := take (writeCursor (sendBuffer c)) (storage (sendBuffer c))
                                        @ packet
                                        @ drop (writeCursor (sendBuffer c) + length packet)
                                            (storage (sendBuffer c)),
                           writeCursor := writeCursor (sendBuffer c) + length packet\<rparr>\<rparr>))"
    by (simp add: SendPacket_closed SetPacket_def)
next
  assume c: "\<not> socket_is_open c \<and> \<not> lock_held c"
    and over: "capacity (sendBuffer c) < writeCursor (sendBuffer c) + length packet"
  then show "SendPacket packet c = Returns (False, emit SetPacket_failed_log c)"
    by (simp add: SendPacket_closed)
next
  fix r c'
  assume c: "\<not> socket_is_open c \<and> \<not> lock_held c"
    and r: "SendPacket packet c = Returns (r, c')"
  from c r show "\<not> socket_is_open c'" "\<not> lock_held c'" "recvBuffer c' = recvBuffer c"
    "io_posts (trace c') = io_posts (trace c)"
    by (auto simp: SendPacket_closed emit_def io_posts_def split: if_splits)
qed

text \<open>
  The session closed by a reset: a packet of two bytes is appended and reported as sent,
  a packet of nine bytes does not fit into the eight bytes of the buffer.
\<close>

theorem connection_reset_then_SendPacket_witness:
  "PostWrite_handler os_ok connection_reset 0 session0
     = Returns (session0\<lparr>socket_is_open := False,
                  trace := Disconnected_log remote0 # disconnected_trace local0 shutdown_both\<rparr>)
   \<and> SendPacket [7, 8]
        (session0\<lparr>socket_is_open := False,
                  trace := Disconnected_log remote0 # disconnected_trace local0 shutdown_both\<rparr>)
     = Returns (True, session0\<lparr>socket_is_open := False,
                  sendBuffer := \<lparr>storage = [7, 8, 0, 0, 0, 0, 0, 0],
                                  readCursor = 0, writeCursor = 2\<rparr>,
                  trace := Disconnected_log remote0 # disconnected_trace local0 shutdown_both
                           @ [PostWrite_closed_log]\<rparr>)
   \<and> SendPacket [1, 2, 3, 4, 5, 6, 7, 8, 9]
        (session0\<lparr>socket_is_open := False,
                  trace := Disconnected_log remote0 # disconnected_trace local0 shutdown_both\<rparr>)
     = Returns (False, session0\<lparr>socket_is_open := False,
                  trace := Disconnected_log remote0 # disconnected_trace local0 shutdown_both
                           @ [SetPacket_failed_log]\<rparr>)"
proof -
  let ?c = "session0\<lparr>socket_is_open := False,
                  trace := Disconnected_log remote0 # disconnected_trace local0 shutdown_both\<rparr>"
  have h: "socket_is_open session0" "\<not> lock_held session0"
    "remote_endpoint_reply os_ok = Inr remote0" "local_endpoint_reply os_ok = Inr local0"
    "shutdown_reply os_ok = success" "close_reply os_ok = success"
    by (simp_all add: session0_def os_ok_def)
  have c: "\<not> socket_is_open ?c \<and> \<not> lock_held ?c" by (simp add: session0_def)
  have fits: "writeCursor (sendBuffer ?c) + length [7::byte, 8] \<le> capacity (sendBuffer ?c)"
    by (simp add: session0_def buffer0_def capacity_def)
  have over: "capacity (sendBuffer ?c)
                < writeCursor (sendBuffer ?c) + length [1::byte, 2, 3, 4, 5, 6, 7, 8, 9]"
    by (simp add: session0_def buffer0_def capacity_def)
  note t2 = connection_reset_then_SendPacket [OF h, of 0 ?c "[7, 8]"]
  note t9 = connection_reset_then_SendPacket [OF h, of 0 ?c "[1, 2, 3, 4, 5, 6, 7, 8, 9]"]
  from t2 have "\<exists>s1. PostWrite_handler os_ok connection_reset 0 session0 = Returns s1
            \<and> \<not> socket_is_open s1 \<and> \<not> lock_held s1
            \<and> trace s1 = trace session0
                 @ Disconnected_log remote0 # disconnected_trace local0 shutdown_both"
    by (rule conjunct1)
  then have a: "PostWrite_handler os_ok connection_reset 0 session0 = Returns ?c"
    by (simp add: PostWrite_handler_failed [OF h(1,2,3)] Shutdown_open h emit_def)
       (simp add: session0_def)
  from t2 c fits have "SendPacket [7, 8] ?c
     = Returns (True, emit PostWrite_closed_log
         (?c\<lparr>sendBuffer := (sendBuffer ?c)
              \<lparr>storage := take (writeCursor (sendBuffer ?c)) (storage (sendBuffer ?c))
                            @ [7, 8]
                            @ drop (writeCursor (sendBuffer ?c) + length [7::byte, 8])
                                (storage (sendBuffer ?c)),
               writeCursor := writeCursor (sendBuffer ?c) + length [7::byte, 8]\<rparr>\<rparr>))"
    by blast
  then have b: "SendPacket [7, 8] ?c
     = Returns (True, session0\<lparr>socket_is_open := False,
                  sendBuffer := \<lparr>storage = [7, 8, 0, 0, 0, 0, 0, 0],
                                  readCursor = 0, writeCursor = 2\<rparr>,
                  trace := Disconnected_log remote0 # disconnected_trace local0 shutdown_both
                           @ [PostWrite_closed_log]\<rparr>)"
    by (simp add: session0_def buffer0_def emit_def)
  from t9 c over have "SendPacket [1, 2, 3, 4, 5, 6, 7, 8, 9] ?c
     = Returns (False, emit SetPacket_failed_log ?c)"
    by blast
  then have d: "SendPacket [1, 2, 3, 4, 5, 6, 7, 8, 9] ?c
     = Returns (False, session0\<lparr>socket_is_open := False,
                  trace := Disconnected_log remote0 # disconnected_trace local0 shutdown_both
                           @ [SetPacket_failed_log]\<rparr>)"
    by (simp add: session0_def emit_def)
  from a b d show ?thesis by simp
qed

text \<open>
  C1 as stated fails: after the write completion with \<open>connection_reset\<close> has closed
  the socket, \<^verbatim>\<open>SendPacket\<close> of a packet of three bytes returns \<open>True\<close>; the
  packet is in the send buffer and \<^verbatim>\<open>PostWrite\<close> has logged that the socket is
  closed.
\<close>

theorem SendPacket_after_reset_returns_true:
  "PostWrite_handler os_ok connection_reset 0 session0
     = Returns (session0\<lparr>socket_is_open := False,
                  trace := Disconnected_log remote0 # disconnected_trace local0 shutdown_both\<rparr>)
   \<and> SendPacket [1, 2, 3]
        (session0\<lparr>socket_is_open := False,
                  trace := Disconnected_log remote0 # disconnected_trace local0 shutdown_both\<rparr>)
     = Returns (True, session0\<lparr>socket_is_open := False,
                  sendBuffer := \<lparr>storage = [1, 2, 3, 0, 0, 0, 0, 0],
                                  readCursor = 0, writeCursor = 3\<rparr>,
                  trace := Disconnected_log remote0 # disconnected_trace local0 shutdown_both
                           @ [PostWrite_closed_log]\<rparr>)"
proof -
  have h: "socket_is_open session0" "\<not> lock_held session0"
    "remote_endpoint_reply os_ok = Inr remote0"
    by (simp_all add: session0_def os_ok_def)
  have k: "local_endpoint_reply os_ok = Inr local0"
    "shutdown_reply os_ok = success" "close_reply os_ok = success"
    by (simp_all add: os_ok_def)
  have a: "PostWrite_handler os_ok connection_reset 0 session0
     = Returns (session0\<lparr>socket_is_open := False,
                  trace := Disconnected_log remote0 # disconnected_trace local0 shutdown_both\<rparr>)"
    by (simp add: PostWrite_handler_failed [OF h] Shutdown_open h k emit_def)
       (simp add: session0_def)
  have b: "SendPacket [1, 2, 3]
        (session0\<lparr>socket_is_open := False,
                  trace := Disconnected_log remote0 # disconnected_trace local0 shutdown_both\<rparr>)
     = Returns (True, session0\<lparr>socket_is_open := False,
                  sendBuffer := \<lparr>storage = [1, 2, 3, 0, 0, 0, 0, 0],
                                  readCursor = 0, writeCursor = 3\<rparr>,
                  trace := Disconnected_log remote0 # disconnected_trace local0 shutdown_both
                           @ [PostWrite_closed_log]\<rparr>)"
    by (simp add: SendPacket_closed session0_def buffer0_def capacity_def SetPacket_def emit_def)
  from a b show ?thesis by simp
qed

subsection \<open>Facts about the concrete sessions\<close>

lemma os_ok_replies:
  "local_endpoint_reply os_ok = Inr local0" "remote_endpoint_reply os_ok = Inr remote0"
  "shutdown_reply os_ok = success" "close_reply os_ok = success"
  by (simp_all add: os_ok_def)

lemma session0_fields:
  "socket_is_open session0" "\<not> lock_held session0" "trace session0 = []"
  "recvBuffer session0 = buffer0" "sendBuffer session0 = buffer0"
  by (simp_all add: session0_def)

lemma Shutdown_os_ok:
  "socket_is_open s \<Longrightarrow>
   Shutdown os_ok m s
     = Returns (s\<lparr>socket_is_open := False, trace := trace s @ disconnected_trace local0 m\<rparr>)"
  by (simp add: Shutdown_open os_ok_replies)


lemma five_pending_facts:
  "TruncateBuffer 2 five_pending = five_pending\<lparr>readCursor := 2\<rparr>"
  "TruncateBuffer 5 five_pending = five_pending\<lparr>readCursor := 5\<rparr>"
  "\<not> IsEmptyData (five_pending\<lparr>readCursor := 2\<rparr>)"
  "IsEmptyData (five_pending\<lparr>readCursor := 5\<rparr>)"
  "GetBuffer (five_pending\<lparr>readCursor := 2\<rparr>) = [3, 4, 5]"
  "ReArrange (five_pending\<lparr>readCursor := 5\<rparr>)
     = \<lparr>storage = [1, 2, 3, 4, 5, 0, 0, 0], readCursor = 0, writeCursor = 0\<rparr>"
  by (simp_all add: TruncateBuffer_def five_pending_def IsEmptyData_def GetBuffer_def
      ReArrange_def)

lemma GetBuffer_five_pending: "GetBuffer five_pending = [1, 2, 3, 4, 5]"
  by (simp add: GetBuffer_def five_pending_def)

subsection \<open>PostWrite with nothing to send\<close>

text \<open>
  C8 (as amended).  \<^verbatim>\<open>PostWrite\<close>, called with the lock free while the send
  buffer has no pending data (\<open>readCursor = writeCursor\<close>), returns without posting
  an asynchronous operation and leaves every member of the session as it was; with the
  socket open it does nothing at all, with the socket closed it only logs.  A second
  call on that buffer behaves in the same way.
\<close>

theorem PostWrite_without_pending_data:
  assumes "IsEmptyData (sendBuffer s)" and "\<not> lock_held s"
  shows "\<exists>s'. PostWrite s = Returns s'
           \<and> s'\<lparr>trace := trace s\<rparr> = s
           \<and> io_posts (trace s') = io_posts (trace s)
           \<and> (socket_is_open s \<longrightarrow> s' = s)
           \<and> (\<exists>s''. PostWrite s' = Returns s''
                  \<and> s''\<lparr>trace := trace s\<rparr> = s
                  \<and> io_posts (trace s'') = io_posts (trace s))"
proof (cases "socket_is_open s")
  case True
  with assms have "PostWrite s = Returns s" by (simp add: PostWrite_unlocked)
  then show ?thesis by (simp add: True)
next
  case False
  let ?s' = "emit PostWrite_closed_log s"
  from False assms have 1: "PostWrite s = Returns ?s'" by (simp add: PostWrite_unlocked)
  from False assms have 2: "PostWrite ?s' = Returns (emit PostWrite_closed_log ?s')"
    by (simp add: PostWrite_unlocked emit_def)
  show ?thesis using False 1 2 by (simp add: emit_def io_posts_def)
qed

text \<open>
  The session with empty buffers, with its socket open and with its socket closed.
\<close>

theorem PostWrite_without_pending_data_witness:
  "IsEmptyData (sendBuffer session0) \<and> \<not> lock_held session0
   \<and> PostWrite session0 = Returns session0
   \<and> PostWrite (session0\<lparr>socket_is_open := False\<rparr>)
        = Returns (session0\<lparr>socket_is_open := False, trace := [PostWrite_closed_log]\<rparr>)"
proof -
  let ?c = "session0\<lparr>socket_is_open := False\<rparr>"
  have h: "IsEmptyData (sendBuffer session0)" "\<not> lock_held session0"
    by (simp_all add: session0_def buffer0_def IsEmptyData_def)
  have hc: "IsEmptyData (sendBuffer ?c)" "\<not> lock_held ?c"
    by (simp_all add: session0_def buffer0_def IsEmptyData_def)
  from PostWrite_without_pending_data [OF h] session0_fields(1)
  have 1: "PostWrite session0 = Returns session0" by auto
  from PostWrite_without_pending_data [OF hc]
  obtain s' where r: "PostWrite ?c = Returns s'" and m: "s'\<lparr>trace := trace ?c\<rparr> = ?c"
    by blast
  from r have "trace s' = [PostWrite_closed_log]"
    by (simp add: PostWrite_unlocked hc emit_def) (auto simp: session0_def)
  with m have "s' = session0\<lparr>socket_is_open := False, trace := [PostWrite_closed_log]\<rparr>"
    by (cases s') (simp add: session0_def)
  with r 1 h show ?thesis by simp
qed

text \<open>
  C8 as stated fails: \<^verbatim>\<open>PostWrite\<close> is not idempotent while a write is in
  flight.  The bytes of a posted write stay pending until its completion handler has
  run, so a second call before that posts the same five bytes once more.
\<close>

theorem PostWrite_twice_posts_twice:
  "\<not> IsEmptyData (sendBuffer (session0\<lparr>sendBuffer := five_pending\<rparr>))
   \<and> PostWrite (session0\<lparr>sendBuffer := five_pending\<rparr>)
       = Returns (session0\<lparr>sendBuffer := five_pending,
                            trace := [async_write [1, 2, 3, 4, 5]]\<rparr>)
   \<and> PostWrite (session0\<lparr>sendBuffer := five_pending,
                         trace := [async_write [1, 2, 3, 4, 5]]\<rparr>)
       = Returns (session0\<lparr>sendBuffer := five_pending,
                            trace := [async_write [1, 2, 3, 4, 5],
                                      async_write [1, 2, 3, 4, 5]]\<rparr>)"
  by (simp add: PostWrite_unlocked session0_def emit_def GetBuffer_five_pending)
     (simp add: IsEmptyData_def five_pending_def)

subsection \<open>Classification of failed completions\<close>

text \<open>
  C2 (as amended).  When a read or a write completion reports \<open>connection_aborted\<close>
  (socket open, lock free, remote endpoint known), the handler logs ``Connection
  aborted.'' at informational severity and calls \<^verbatim>\<open>Shutdown\<close> for its own direction
  only: \<open>shutdown_receive\<close> in the read handler, \<open>shutdown_send\<close> in the write
  handler.
\<close>

theorem connection_aborted_shutdown:
  assumes "socket_is_open s" and "\<not> lock_held s" and "remote_endpoint_reply os = Inr ep"
  shows "PostReceive_handler fmt Handle os connection_aborted n s
           = Some (Shutdown os shutdown_receive (emit (Connection_aborted_log ep) s))
       \<and> PostWrite_handler os connection_aborted n s
           = Shutdown os shutdown_send (emit (Connection_aborted_log ep) s)"
  using assms by (simp add: PostReceive_handler_failed PostWrite_handler_failed)

text \<open>
  Both handlers at the session with empty buffers.
\<close>

theorem connection_aborted_shutdown_witness:
  "PostReceive_handler fmt0 (dispatcher7 fmt0) os_ok connection_aborted 0 session0
     = Some (Shutdown os_ok shutdown_receive (emit (Connection_aborted_log remote0) session0))
   \<and> PostWrite_handler os_ok connection_aborted 0 session0
     = Shutdown os_ok shutdown_send (emit (Connection_aborted_log remote0) session0)"
  using connection_aborted_shutdown [OF session0_fields(1,2) os_ok_replies(2)] by simp

text \<open>
  C2 as stated fails: on \<open>connection_aborted\<close> the socket is shut down with
  \<open>shutdown_receive\<close> by the read handler and with \<open>shutdown_send\<close> by the write
  handler, not with \<open>shutdown_both\<close>.
\<close>

theorem connection_aborted_not_both:
  "PostReceive_handler fmt0 (dispatcher7 fmt0) os_ok connection_aborted 0 session0
     = Some (Returns (session0\<lparr>socket_is_open := False,
               trace := [Connection_aborted_log remote0,
                         Log INFO LOG_FILTER_SERVER
                           ''Session is disconnected({}). ip: {}, port: {}''
                           [arg_string ''shutdown_receive'', arg_string ''10.0.0.1'',
                            arg_number 7000],
                         socket_shutdown shutdown_receive, socket_close]\<rparr>))
   \<and> PostWrite_handler os_ok connection_aborted 0 session0
     = Returns (session0\<lparr>socket_is_open := False,
               trace := [Connection_aborted_log remote0,
                         Log INFO LOG_FILTER_SERVER
                           ''Session is disconnected({}). ip: {}, port: {}''
                           [arg_string ''shutdown_send'', arg_string ''10.0.0.1'',
                            arg_number 7000],
                         socket_shutdown shutdown_send, socket_close]\<rparr>)"
proof -
  have o: "socket_is_open (emit e session0)" for e
    by (simp add: emit_def session0_def)
  have "PostReceive_handler fmt0 (dispatcher7 fmt0) os_ok connection_aborted 0 session0
     = Some (Shutdown os_ok shutdown_receive (emit (Connection_aborted_log remote0) session0))"
    by (simp add: PostReceive_handler_failed session0_fields os_ok_replies)
  moreover have "PostWrite_handler os_ok connection_aborted 0 session0
     = Shutdown os_ok shutdown_send (emit (Connection_aborted_log remote0) session0)"
    by (simp add: PostWrite_handler_failed session0_fields os_ok_replies)
  ultimately show ?thesis
    by (simp add: Shutdown_os_ok o) (simp add: emit_def session0_def disconnected_trace_def local0_def)
qed

text \<open>
  C4 (as amended).  When a read or a write completion reports an error code (socket
  open, lock free, remote endpoint known): for \<open>eof\<close> and \<open>connection_reset\<close> the
  handler logs ``Disconnected.'' and calls \<^verbatim>\<open>Shutdown\<close> for both directions; for any
  other code it calls \<^verbatim>\<open>Shutdown\<close> for its own direction only.  The error code and
  its message are logged (at error severity) only when the code is not
  \<open>connection_aborted\<close> and at least one byte was transferred; otherwise the log line
  is ``Connection aborted.'' or ``Disconnected. 0 bytes transferred.'', at informational
  severity, with the address and the port only.
\<close>

theorem transport_error_shutdown:
  assumes "socket_is_open s" and "\<not> lock_held s" and "remote_endpoint_reply os = Inr ep"
    and "errorCode \<noteq> success"
  shows "PostReceive_handler fmt Handle os errorCode n s
           = Some (if errorCode = eof \<or> errorCode = connection_reset
                   then Shutdown os shutdown_both (emit (Disconnected_log ep) s)
                   else Shutdown os shutdown_receive
                          (emit (if errorCode = connection_aborted then Connection_aborted_log ep
                                 else if n = 0 then Zero_bytes_log ep
                                 else Receive_error_log errorCode ep) s))
       \<and> PostWrite_handler os errorCode n s
           = (if errorCode = eof \<or> errorCode = connection_reset
              then Shutdown os shutdown_both (emit (Disconnected_log ep) s)
              else Shutdown os shutdown_send
                     (emit (if errorCode = connection_aborted then Connection_aborted_log ep
                            else if n = 0 then Zero_bytes_log ep
                            else Send_error_log errorCode ep) s))"
  using assms by (simp add: PostReceive_handler_failed PostWrite_handler_failed)

text \<open>
  A read that ends with \<open>eof\<close>, and a write that ends with error 10055 after three
  bytes.
\<close>

theorem transport_error_shutdown_witness:
  "PostReceive_handler fmt0 (dispatcher7 fmt0) os_ok eof 0 session0
     = Some (Shutdown os_ok shutdown_both (emit (Disconnected_log remote0) session0))
   \<and> PostWrite_handler os_ok (os_error 10055) 3 (session0\<lparr>sendBuffer := five_pending\<rparr>)
     = Shutdown os_ok shutdown_send
         (emit (Send_error_log (os_error 10055) remote0) (session0\<lparr>sendBuffer := five_pending\<rparr>))"
proof -
  have s: "socket_is_open (session0\<lparr>sendBuffer := five_pending\<rparr>)"
    "\<not> lock_held (session0\<lparr>sendBuffer := five_pending\<rparr>)"
    by (simp_all add: session0_def)
  from transport_error_shutdown [OF session0_fields(1,2) os_ok_replies(2), of eof fmt0 "dispatcher7 fmt0" 0]
    transport_error_shutdown [OF s os_ok_replies(2), of "os_error 10055" fmt0 "dispatcher7 fmt0" 3]
  show ?thesis by simp
qed

text \<open>
  C4 as stated fails: a completion with error 10060 (timed out) and no byte transferred
  is logged as ``Disconnected. 0 bytes transferred.'' at informational severity, and a
  write that ends with \<open>connection_aborted\<close> after three bytes as ``Connection
  aborted.''; neither the code nor its message is in the trace.
\<close>

theorem other_error_without_code_logged:
  "PostReceive_handler fmt0 (dispatcher7 fmt0) os_ok (os_error 10060) 0 session0
     = Some (Returns (session0\<lparr>socket_is_open := False,
               trace := Zero_bytes_log remote0 # disconnected_trace local0 shutdown_receive\<rparr>))
   \<and> PostWrite_handler os_ok (os_error 10060) 0 session0
     = Returns (session0\<lparr>socket_is_open := False,
               trace := Zero_bytes_log remote0 # disconnected_trace local0 shutdown_send\<rparr>)
   \<and> PostWrite_handler os_ok connection_aborted 3 session0
     = Returns (session0\<lparr>socket_is_open := False,
               trace := Connection_aborted_log remote0
                          # disconnected_trace local0 shutdown_send\<rparr>)"
proof -
  have o: "socket_is_open (emit e session0)" for e
    by (simp add: emit_def session0_def)
  have "PostReceive_handler fmt0 (dispatcher7 fmt0) os_ok (os_error 10060) 0 session0
     = Some (Shutdown os_ok shutdown_receive (emit (Zero_bytes_log remote0) session0))"
    by (simp add: PostReceive_handler_failed session0_fields os_ok_replies)
  moreover have "PostWrite_handler os_ok (os_error 10060) 0 session0
     = Shutdown os_ok shutdown_send (emit (Zero_bytes_log remote0) session0)"
    by (simp add: PostWrite_handler_failed session0_fields os_ok_replies)
  moreover have "PostWrite_handler os_ok connection_aborted 3 session0
     = Shutdown os_ok shutdown_send (emit (Connection_aborted_log remote0) session0)"
    by (simp add: PostWrite_handler_failed session0_fields os_ok_replies)
  ultimately show ?thesis
    by (simp add: Shutdown_os_ok o) (simp add: emit_def session0_def)
qed

text \<open>
  C9.  A read or a write completion with no error and zero bytes (socket open, lock
  free, remote endpoint known) logs ``Disconnected. 0 bytes transferred.'' at
  informational severity and calls \<^verbatim>\<open>Shutdown\<close> for its own direction:
  \<open>shutdown_receive\<close> in the read handler, \<open>shutdown_send\<close> in the write handler.
  When that call returns, the socket is closed and no asynchronous operation has been
  posted: the loop is not re-armed.
\<close>

theorem zero_bytes_disconnect:
  assumes "socket_is_open s" and "\<not> lock_held s" and "remote_endpoint_reply os = Inr ep"
  shows "PostReceive_handler fmt Handle os success 0 s
           = Some (Shutdown os shutdown_receive (emit (Zero_bytes_log ep) s))
       \<and> PostWrite_handler os success 0 s
           = Shutdown os shutdown_send (emit (Zero_bytes_log ep) s)
       \<and> (Shutdown os m (emit (Zero_bytes_log ep) s) = Returns s' \<longrightarrow>
            \<not> socket_is_open s' \<and> io_posts (trace s') = io_posts (trace s))"
proof (intro conjI impI)
  show "PostReceive_handler fmt Handle os success 0 s
           = Some (Shutdown os shutdown_receive (emit (Zero_bytes_log ep) s))"
    using assms by (simp add: PostReceive_handler_failed)
  show "PostWrite_handler os success 0 s
           = Shutdown os shutdown_send (emit (Zero_bytes_log ep) s)"
    using assms by (simp add: PostWrite_handler_failed)
next
  assume r: "Shutdown os m (emit (Zero_bytes_log ep) s) = Returns s'"
  from r show "\<not> socket_is_open s'" by (rule Shutdown_Returns_closed)
  from Shutdown_Returns_io [OF r] show "io_posts (trace s') = io_posts (trace s)"
    by (simp add: emit_def io_posts_def)
qed

text \<open>
  Both handlers at the session with empty buffers, with the whole trace.
\<close>

theorem zero_bytes_disconnect_witness:
  "PostReceive_handler fmt0 (dispatcher7 fmt0) os_ok success 0 session0
     = Some (Returns (session0\<lparr>socket_is_open := False,
               trace := Zero_bytes_log remote0 # disconnected_trace local0 shutdown_receive\<rparr>))
   \<and> PostWrite_handler os_ok success 0 session0
     = Returns (session0\<lparr>socket_is_open := False,
               trace := Zero_bytes_log remote0 # disconnected_trace local0 shutdown_send\<rparr>)
   \<and> io_posts (Zero_bytes_log remote0 # disconnected_trace local0 shutdown_send) = []"
proof -
  let ?s' = "session0\<lparr>socket_is_open := False,
               trace := Zero_bytes_log remote0 # disconnected_trace local0 shutdown_send\<rparr>"
  have o: "socket_is_open (emit e session0)" for e
    by (simp add: emit_def session0_def)
  have sr: "Shutdown os_ok shutdown_receive (emit (Zero_bytes_log remote0) session0)
     = Returns (session0\<lparr>socket_is_open := False,
               trace := Zero_bytes_log remote0 # disconnected_trace local0 shutdown_receive\<rparr>)"
    by (simp add: Shutdown_os_ok o) (simp add: emit_def session0_def)
  have ss: "Shutdown os_ok shutdown_send (emit (Zero_bytes_log remote0) session0) = Returns ?s'"
    by (simp add: Shutdown_os_ok o) (simp add: emit_def session0_def)
  note z = zero_bytes_disconnect [OF session0_fields(1,2) os_ok_replies(2),
      of fmt0 "dispatcher7 fmt0" shutdown_send ?s']
  from z have r: "PostReceive_handler fmt0 (dispatcher7 fmt0) os_ok success 0 session0
     = Some (Shutdown os_ok shutdown_receive (emit (Zero_bytes_log remote0) session0))"
    by (rule conjunct1)
  from z have w: "PostWrite_handler os_ok success 0 session0
     = Shutdown os_ok shutdown_send (emit (Zero_bytes_log remote0) session0)"
    by (rule conjunct1 [OF conjunct2])
  from z ss have "io_posts (trace ?s') = io_posts (trace session0)"
    by blast
  then have i: "io_posts (Zero_bytes_log remote0 # disconnected_trace local0 shutdown_send) = []"
    by (simp add: session0_def io_posts_def)
  from r w i sr ss show ?thesis by simp
qed

subsection \<open>The drain loop of the read handler\<close>



subsection \<open>Successful completions\<close>

text \<open>
  C7 (as amended).  On a write completion without error that transferred \<open>n > 0\<close>
  bytes (socket open, lock free, remote endpoint known), the read cursor of the send
  buffer advances by \<open>n mod 65536\<close>, which is \<open>n\<close> when \<open>n < 65536\<close>.  If the
  buffer is empty then, it is compacted and the handler returns without posting a
  write.  If bytes remain, the handler ends with \<^verbatim>\<open>PostWrite\<close> on a session whose
  lock is free, and that call posts one write of the remaining bytes.
\<close>

theorem write_completed:
  assumes "socket_is_open s" and "\<not> lock_held s" and "remote_endpoint_reply os = Inr ep"
    and "n \<noteq> 0" and "b = TruncateBuffer (ucast n) (sendBuffer s)"
  shows "readCursor b = readCursor (sendBuffer s) + unat n mod 65536
       \<and> (unat n < 65536 \<longrightarrow> readCursor b = readCursor (sendBuffer s) + unat n)
       \<and> (IsEmptyData b \<longrightarrow>
            PostWrite_handler os success n s = Returns (s\<lparr>sendBuffer := ReArrange b\<rparr>))
       \<and> (\<not> IsEmptyData b \<longrightarrow>
            PostWrite_handler os success n s = PostWrite (s\<lparr>sendBuffer := b\<rparr>)
            \<and> \<not> lock_held (s\<lparr>sendBuffer := b\<rparr>)
            \<and> PostWrite (s\<lparr>sendBuffer := b\<rparr>)
                = Returns (emit (async_write (GetBuffer b)) (s\<lparr>sendBuffer := b\<rparr>)))"
proof (intro conjI impI)
  show c: "readCursor b = readCursor (sendBuffer s) + unat n mod 65536"
    using assms(5) by (simp add: TruncateBuffer_def unat_narrow)
  show "readCursor b = readCursor (sendBuffer s) + unat n" if "unat n < 65536"
    using c that by simp
  show "PostWrite_handler os success n s = Returns (s\<lparr>sendBuffer := ReArrange b\<rparr>)"
    if "IsEmptyData b"
    using that assms by (simp add: PostWrite_handler_sent)
next
  assume ne: "\<not> IsEmptyData b"
  show "PostWrite_handler os success n s = PostWrite (s\<lparr>sendBuffer := b\<rparr>)"
    using ne assms by (simp add: PostWrite_handler_sent)
  show "\<not> lock_held (s\<lparr>sendBuffer := b\<rparr>)"
    using assms(2) by simp
  show "PostWrite (s\<lparr>sendBuffer := b\<rparr>)
          = Returns (emit (async_write (GetBuffer b)) (s\<lparr>sendBuffer := b\<rparr>))"
    using ne assms(1,2) by (simp add: PostWrite_unlocked)
qed

text \<open>
  Five pending bytes: after two bytes were sent the remaining three are posted; after
  five bytes were sent the buffer is compacted and nothing is posted.
\<close>

theorem write_completed_witness:
  "PostWrite_handler os_ok success 2 (session0\<lparr>sendBuffer := five_pending\<rparr>)
     = Returns (session0\<lparr>sendBuffer := five_pending\<lparr>readCursor := 2\<rparr>,
                         trace := [async_write [3, 4, 5]]\<rparr>)
   \<and> PostWrite_handler os_ok success 5 (session0\<lparr>sendBuffer := five_pending\<rparr>)
     = Returns (session0\<lparr>sendBuffer :=
                  \<lparr>storage = [1, 2, 3, 4, 5, 0, 0, 0], readCursor = 0, writeCursor = 0\<rparr>\<rparr>)"
proof -
  let ?s = "session0\<lparr>sendBuffer := five_pending\<rparr>"
  have s: "socket_is_open ?s" "\<not> lock_held ?s"
    by (simp_all add: session0_def)
  have b2: "five_pending\<lparr>readCursor := 2\<rparr> = TruncateBuffer (ucast (2::size_t)) (sendBuffer ?s)"
    and b5: "five_pending\<lparr>readCursor := 5\<rparr> = TruncateBuffer (ucast (5::size_t)) (sendBuffer ?s)"
    by (simp_all add: five_pending_facts session0_def)
  from write_completed [OF s os_ok_replies(2) _ b2]
  have "PostWrite_handler os_ok success 2 ?s
          = Returns (emit (async_write (GetBuffer (five_pending\<lparr>readCursor := 2\<rparr>)))
                       (?s\<lparr>sendBuffer := five_pending\<lparr>readCursor := 2\<rparr>\<rparr>))"
    by (simp add: five_pending_facts)
  moreover from write_completed [OF s os_ok_replies(2) _ b5]
  have "PostWrite_handler os_ok success 5 ?s
          = Returns (?s\<lparr>sendBuffer := ReArrange (five_pending\<lparr>readCursor := 5\<rparr>)\<rparr>)"
    by (simp add: five_pending_facts)
  ultimately show ?thesis
    by (simp add: five_pending_facts) (simp add: emit_def session0_def)
qed

text \<open>
  C7 as stated fails: a write of 65540 pending bytes completes with all of them
  transferred; the read cursor advances by 4, and a write of 65536 bytes is posted.
\<close>

theorem read_cursor_not_advanced_by_n:
  "writeCursor big_buffer - readCursor big_buffer = 65540
   \<and> PostWrite_handler os_ok success 65540 (session0\<lparr>sendBuffer := big_buffer\<rparr>)
     = Returns (session0\<lparr>sendBuffer := big_buffer\<lparr>readCursor := 4\<rparr>,
                         trace := [async_write (replicate 65536 0)]\<rparr>)"
proof -
  let ?s = "session0\<lparr>sendBuffer := big_buffer\<rparr>"
  have s: "socket_is_open ?s" "\<not> lock_held ?s"
    by (simp_all add: session0_def)
  have t: "TruncateBuffer 65540 big_buffer = big_buffer\<lparr>readCursor := 4\<rparr>"
    by (simp add: TruncateBuffer_def big_buffer_def)
  have e: "\<not> IsEmptyData (big_buffer\<lparr>readCursor := 4\<rparr>)"
    by (simp add: IsEmptyData_def big_buffer_def)
  have g: "GetBuffer (big_buffer\<lparr>readCursor := 4\<rparr>) = replicate 65536 0"
    by (simp add: GetBuffer_def big_buffer_def)
  have "PostWrite_handler os_ok success 65540 ?s
          = PostWrite (?s\<lparr>sendBuffer := big_buffer\<lparr>readCursor := 4\<rparr>\<rparr>)"
    using s e by (simp add: PostWrite_handler_sent [OF s os_ok_replies(2)] t)
  also have "\<dots> = Returns (session0\<lparr>sendBuffer := big_buffer\<lparr>readCursor := 4\<rparr>,
                         trace := [async_write (replicate 65536 0)]\<rparr>)"
    using e by (simp add: PostWrite_unlocked g session0_def emit_def)
  finally show ?thesis by (simp add: big_buffer_def)
qed

text \<open>
  C10.  Both completion handlers pass the transfer size through \<^verbatim>\<open>uint16\<close>: on
  a completion without error that transferred \<open>n > 0\<close> bytes, the read handler goes on
  with a receive buffer whose write cursor has advanced by \<open>n mod 2^16\<close> (when
  \<^verbatim>\<open>AppendWriteSize\<close> accepts that size), and the write handler with a send buffer
  whose read cursor has advanced by \<open>n mod 2^16\<close>.  From 65536 bytes on, the size
  recorded differs from the size transferred.
\<close>

theorem transfer_size_narrowed:
  assumes "socket_is_open s" and "\<not> lock_held s" and "remote_endpoint_reply os = Inr ep"
    and "n \<noteq> 0"
  shows "(AppendWriteSize (ucast n) (recvBuffer s) = (True, b) \<longrightarrow>
            PostReceive_handler fmt Handle os success n s
              = PostReceive_drain fmt Handle os (s\<lparr>recvBuffer := b\<rparr>)
            \<and> writeCursor b = writeCursor (recvBuffer s) + unat n mod 2 ^ 16)
       \<and> PostWrite_handler os success n s
           = (if IsEmptyData (TruncateBuffer (ucast n) (sendBuffer s))
              then Returns (s\<lparr>sendBuffer := ReArrange (TruncateBuffer (ucast n) (sendBuffer s))\<rparr>)
              else PostWrite (s\<lparr>sendBuffer := TruncateBuffer (ucast n) (sendBuffer s)\<rparr>))
       \<and> readCursor (TruncateBuffer (ucast n) (sendBuffer s))
           = readCursor (sendBuffer s) + unat n mod 2 ^ 16
       \<and> (65536 \<le> unat n \<longrightarrow> unat (ucast n :: uint16) \<noteq> unat n)"
proof (intro conjI impI)
  assume a: "AppendWriteSize (ucast n) (recvBuffer s) = (True, b)"
  show "PostReceive_handler fmt Handle os success n s
          = PostReceive_drain fmt Handle os (s\<lparr>recvBuffer := b\<rparr>)"
    using assms(1,3,4) a by (simp add: PostReceive_handler_received)
  from a show "writeCursor b = writeCursor (recvBuffer s) + unat n mod 2 ^ 16"
    by (auto simp: AppendWriteSize_def unat_narrow split: if_splits)
next
  show "PostWrite_handler os success n s
           = (if IsEmptyData (TruncateBuffer (ucast n) (sendBuffer s))
              then Returns (s\<lparr>sendBuffer := ReArrange (TruncateBuffer (ucast n) (sendBuffer s))\<rparr>)
              else PostWrite (s\<lparr>sendBuffer := TruncateBuffer (ucast n) (sendBuffer s)\<rparr>))"
    using assms by (rule PostWrite_handler_sent)
  show "readCursor (TruncateBuffer (ucast n) (sendBuffer s))
           = readCursor (sendBuffer s) + unat n mod 2 ^ 16"
    by (simp add: TruncateBuffer_def unat_narrow)
  show "unat (ucast n :: uint16) \<noteq> unat n" if "65536 \<le> unat n"
    using that by (simp add: unat_narrow)
qed

text \<open>
  A completion that transferred 65539 bytes is recorded as 3 bytes.
\<close>

theorem transfer_size_narrowed_witness:
  "PostReceive_handler fmt0 (dispatcher7 fmt0) os_ok success 65539
        (session0\<lparr>recvBuffer := big_buffer\<lparr>writeCursor := 0\<rparr>, sendBuffer := big_buffer\<rparr>)
     = PostReceive_drain fmt0 (dispatcher7 fmt0) os_ok
        (session0\<lparr>recvBuffer := big_buffer\<lparr>writeCursor := 3\<rparr>, sendBuffer := big_buffer\<rparr>)
   \<and> readCursor (TruncateBuffer (ucast (65539 :: size_t)) big_buffer) = 3
   \<and> unat (ucast (65539 :: size_t) :: uint16) \<noteq> unat (65539 :: size_t)"
proof -
  let ?s = "session0\<lparr>recvBuffer := big_buffer\<lparr>writeCursor := 0\<rparr>, sendBuffer := big_buffer\<rparr>"
  have s: "socket_is_open ?s" "\<not> lock_held ?s"
    by (simp_all add: session0_def)
  have a: "AppendWriteSize (ucast (65539 :: size_t)) (recvBuffer ?s)
     = (True, big_buffer\<lparr>writeCursor := 3\<rparr>)"
    by (simp add: AppendWriteSize_def big_buffer_def capacity_def)
  have n: "(65539 :: size_t) \<noteq> 0" by simp
  have r: "readCursor (sendBuffer ?s) = 0" by (simp add: big_buffer_def)
  have u: "unat (65539 :: size_t) = 65539" by simp
  note t = transfer_size_narrowed [OF s os_ok_replies(2) n,
      of "big_buffer\<lparr>writeCursor := 3\<rparr>" fmt0 "dispatcher7 fmt0"]
  from t a have 1: "PostReceive_handler fmt0 (dispatcher7 fmt0) os_ok success 65539 ?s
     = PostReceive_drain fmt0 (dispatcher7 fmt0) os_ok
         (?s\<lparr>recvBuffer := big_buffer\<lparr>writeCursor := 3\<rparr>\<rparr>)"
    by blast
  from t have "readCursor (TruncateBuffer (ucast (65539 :: size_t)) (sendBuffer ?s))
           = readCursor (sendBuffer ?s) + unat (65539 :: size_t) mod 2 ^ 16"
    by blast
  then have 2: "readCursor (TruncateBuffer (ucast (65539 :: size_t)) big_buffer) = 3"
    unfolding r u by simp
  from t u have 3: "unat (ucast (65539 :: size_t) :: uint16) \<noteq> unat (65539 :: size_t)"
    by simp
  from 1 2 3 show ?thesis by (simp add: session0_def)
qed

end
